theory Spec2Isabelle
  imports Main "HOL-Library.Char_ord" "HOL-Library.List_Lexorder"
begin

section \<open>JavaScript values used by the reservation code\<close>

text \<open>
  A JavaScript number as the reservation code meets it: an integer, or \<open>NaN\<close>.
  Arithmetic and comparison follow ECMAScript: every operation with \<open>NaN\<close> gives
  \<open>NaN\<close>, and every comparison with \<open>NaN\<close> is false.
\<close>

datatype jsnum = NaN | Num int

fun js_mul :: "jsnum \<Rightarrow> jsnum \<Rightarrow> jsnum" where
  "js_mul (Num a) (Num b) = Num (a * b)"
| "js_mul _ _ = NaN"

fun js_add :: "jsnum \<Rightarrow> jsnum \<Rightarrow> jsnum" where
  "js_add (Num a) (Num b) = Num (a + b)"
| "js_add _ _ = NaN"

fun js_sub :: "jsnum \<Rightarrow> jsnum \<Rightarrow> jsnum" where
  "js_sub (Num a) (Num b) = Num (a - b)"
| "js_sub _ _ = NaN"

fun js_lt :: "jsnum \<Rightarrow> jsnum \<Rightarrow> bool" where
  "js_lt (Num a) (Num b) = (a < b)"
| "js_lt _ _ = False"

fun js_ge :: "jsnum \<Rightarrow> jsnum \<Rightarrow> bool" where
  "js_ge (Num a) (Num b) = (a \<ge> b)"
| "js_ge _ _ = False"

fun js_eq :: "jsnum \<Rightarrow> jsnum \<Rightarrow> bool" where
  "js_eq (Num a) (Num b) = (a = b)"
| "js_eq _ _ = False"

text \<open>
  The remainder operator \<open>%\<close> on integers truncates towards zero: the result has
  the sign of the dividend.
\<close>

definition js_rem :: "int \<Rightarrow> int \<Rightarrow> int" where
  "js_rem a b = sgn a * (\<bar>a\<bar> mod \<bar>b\<bar>)"

text \<open>
  \<open>String.prototype.split\<close> with a one-character separator: the pieces between the
  separators, in order; a string without separator is its own single piece, and the
  empty string gives one empty piece.
\<close>

fun split_js :: "char \<Rightarrow> string \<Rightarrow> string list" where
  "split_js sep [] = [[]]"
| "split_js sep (c # cs) =
     (if c = sep then [] # split_js sep cs
      else (case split_js sep cs of
              [] \<Rightarrow> [[c]]
            | p # ps \<Rightarrow> (c # p) # ps))"

definition is_digit :: "char \<Rightarrow> bool" where
  "is_digit c = (CHR ''0'' \<le> c \<and> c \<le> CHR ''9'')"

definition digit_val :: "char \<Rightarrow> int" where
  "digit_val c = int (of_char c) - 48"

definition dec_value :: "string \<Rightarrow> int" where
  "dec_value s = foldl (\<lambda>acc c. acc * 10 + digit_val c) 0 s"

text \<open>
  \<open>Number(s)\<close> on a string. The model is exact on the strings of decimal digits (the
  empty string is 0), as long as the value is below \<open>2^53\<close>, and on every string
  with a character that no numeric literal can hold, which is \<open>NaN\<close>. JavaScript
  reads more spellings as numbers (surrounding white space, a sign, a fraction, an
  exponent, \<open>0x\<close>, \<open>0o\<close>, \<open>0b\<close>, \<open>Infinity\<close>); they are outside this model, which
  sends them to \<open>NaN\<close>. The theorems below are about strings of digits, or hold
  whatever number such a spelling stands for.
\<close>

definition Number_js :: "string \<Rightarrow> jsnum" where
  "Number_js s = (if list_all is_digit s then Num (dec_value s) else NaN)"

text \<open>
  Reading position \<open>i\<close> of the destructured array: a missing element is
  \<open>undefined\<close>, which arithmetic turns into \<open>NaN\<close>.
\<close>

definition element_or_undefined :: "jsnum list \<Rightarrow> nat \<Rightarrow> jsnum" where
  "element_or_undefined xs i = (if i < length xs then xs ! i else NaN)"

section \<open>Time utilities (reservationUtils.ts)\<close>

definition timeToMinutes :: "string \<Rightarrow> jsnum" where
  "timeToMinutes timeString =
     (let parts = map Number_js (split_js CHR '':'' timeString);
          hours = element_or_undefined parts 0;
          minutes = element_or_undefined parts 1
      in js_add (js_mul hours (Num 60)) minutes)"

definition timeRangesOverlap :: "string \<Rightarrow> string \<Rightarrow> string \<Rightarrow> string \<Rightarrow> bool" where
  "timeRangesOverlap start1 end1 start2 end2 =
     (let start1Minutes = timeToMinutes start1;
          end1Minutes = timeToMinutes end1;
          start2Minutes = timeToMinutes start2;
          end2Minutes = timeToMinutes end2
      in js_lt start1Minutes end2Minutes \<and> js_lt start2Minutes end1Minutes)"

text \<open>
  The two messages of \<open>validateReservationTime\<close>: \<open>EndNotAfterStart\<close> is the message
  that the end time must be later than the start time, \<open>BelowMinimumDuration\<close> the
  message that a reservation lasts at least 30 minutes.
\<close>

datatype validation_message = EndNotAfterStart | BelowMinimumDuration

record validation =
  isValid :: bool
  error :: "validation_message option"

definition validateReservationTime :: "string \<Rightarrow> string \<Rightarrow> validation" where
  "validateReservationTime startTime endTime =
     (let startMinutes = timeToMinutes startTime;
          endMinutes = timeToMinutes endTime
      in if js_ge startMinutes endMinutes
         then \<lparr>isValid = False, error = Some EndNotAfterStart\<rparr>
         else if js_lt (js_sub endMinutes startMinutes) (Num 30)
         then \<lparr>isValid = False, error = Some BelowMinimumDuration\<rparr>
         else \<lparr>isValid = True, error = None\<rparr>)"

text \<open>
  \<open>n.toString()\<close> for an integer and \<open>padStart(2, '0')\<close>, the way
  \<open>getAvailableTimeSlots\<close> writes a time.
\<close>

definition digit_char :: "nat \<Rightarrow> char" where
  "digit_char n = ''0123456789'' ! n"

fun toString_nat :: "nat \<Rightarrow> string" where
  "toString_nat n =
     (if n < 10 then [digit_char n] else toString_nat (n div 10) @ [digit_char (n mod 10)])"

declare toString_nat.simps [simp del]

definition toString_js :: "int \<Rightarrow> string" where
  "toString_js i = (if i < 0 then CHR ''-'' # toString_nat (nat (- i)) else toString_nat (nat i))"

definition padStart :: "nat \<Rightarrow> char \<Rightarrow> string \<Rightarrow> string" where
  "padStart n c s = replicate (n - length s) c @ s"

text \<open>
  The time text of \<open>getAvailableTimeSlots\<close>: the hour and the minute, each padded
  to two characters, with a colon between them.
\<close>

definition hhmm :: "int \<Rightarrow> int \<Rightarrow> string" where
  "hhmm hour minute =
     padStart 2 CHR ''0'' (toString_js hour) @ '':'' @ padStart 2 CHR ''0'' (toString_js minute)"

text \<open>
  A well-formed time: two digits, a colon, two digits, the hour at most 23 and the
  minute at most 59.
\<close>

definition wf_time :: "string \<Rightarrow> bool" where
  "wf_time s =
     (case s of
        [a, b, c, d, e] \<Rightarrow>
          is_digit a \<and> is_digit b \<and> c = CHR '':'' \<and> is_digit d \<and> is_digit e \<and>
          digit_val a * 10 + digit_val b \<le> 23 \<and> digit_val d * 10 + digit_val e \<le> 59
      | _ \<Rightarrow> False)"

section \<open>Dates\<close>

text \<open>
  A \<open>Date\<close> object as the reservation code reads it: invalid, or the calendar fields it
  shows in the local time zone (year, zero-based month index, day of the month). No
  function below reads the time of day.
\<close>

datatype jsdate = InvalidDate | LocalDate int int int

fun getFullYear :: "jsdate \<Rightarrow> jsnum" where
  "getFullYear InvalidDate = NaN"
| "getFullYear (LocalDate y m d) = Num y"

fun getMonth :: "jsdate \<Rightarrow> jsnum" where
  "getMonth InvalidDate = NaN"
| "getMonth (LocalDate y m d) = Num m"

text \<open>
  \<open>toDateString()\<close> writes the weekday, the month name, the day and the year of the
  local date, and \<open>Invalid Date\<close> for an invalid one. The weekday follows from the
  other three, so two such texts are equal exactly when both dates are invalid or both
  show the same year, month and day; the model keeps these three fields in place of
  the text.
\<close>

fun toDateString :: "jsdate \<Rightarrow> (int \<times> int \<times> int) option" where
  "toDateString InvalidDate = None"
| "toDateString (LocalDate y m d) = Some (y, m, d)"

definition is_leap_year :: "int \<Rightarrow> bool" where
  "is_leap_year y = (y mod 4 = 0 \<and> (y mod 100 \<noteq> 0 \<or> y mod 400 = 0))"

definition days_in_month :: "int \<Rightarrow> int \<Rightarrow> int" where
  "days_in_month y m =
     (if m = 2 then (if is_leap_year y then 29 else 28)
      else if m = 4 \<or> m = 6 \<or> m = 9 \<or> m = 11 then 30 else 31)"

text \<open>
  The date-only form \<open>YYYY-MM-DD\<close> of a date text: four digits, two digits, two
  digits, naming a day that exists.
\<close>

definition parse_iso_date :: "string \<Rightarrow> (int \<times> int \<times> int) option" where
  "parse_iso_date s =
     (case s of
        [y1, y2, y3, y4, s1, m1, m2, s2, d1, d2] \<Rightarrow>
          (let y = dec_value [y1, y2, y3, y4]; m = dec_value [m1, m2]; d = dec_value [d1, d2]
           in if list_all is_digit [y1, y2, y3, y4, m1, m2, d1, d2] \<and>
                 s1 = CHR ''-'' \<and> s2 = CHR ''-'' \<and>
                 1 \<le> m \<and> m \<le> 12 \<and> 1 \<le> d \<and> d \<le> days_in_month y m
              then Some (y, m, d) else None)
      | _ \<Rightarrow> None)"

definition previous_day :: "int \<times> int \<times> int \<Rightarrow> int \<times> int \<times> int" where
  "previous_day ymd =
     (case ymd of (y, m, d) \<Rightarrow>
        if 1 < d then (y, m, d - 1)
        else if 1 < m then (y, m - 1, days_in_month y (m - 1))
        else (y - 1, 12, 31))"

text \<open>
  \<open>new Date(text)\<close>. ECMAScript reads the date-only form as midnight UTC of that
  day. \<open>tzOffset\<close> is what \<open>getTimezoneOffset()\<close> returns at that instant: the minutes
  by which UTC is ahead of local time (\<open>-540\<close> in Seoul, \<open>300\<close> in New York in
  winter), between \<open>-1440\<close> and \<open>1440\<close>. West of Greenwich the local clock still shows
  the evening before. Texts in another form (a date with a time, the legacy forms that
  each engine reads in its own way) and texts that name a day that does not exist are
  outside the model, which gives \<open>InvalidDate\<close> for them.
\<close>

definition new_Date :: "int \<Rightarrow> string \<Rightarrow> jsdate" where
  "new_Date tzOffset dateString =
     (case parse_iso_date dateString of
        None \<Rightarrow> InvalidDate
      | Some ymd \<Rightarrow>
          (case (if 0 < tzOffset then previous_day ymd else ymd) of
             (y, m, d) \<Rightarrow> LocalDate y (m - 1) d))"

section \<open>Reservations of the application (App.tsx)\<close>

datatype resource_type = vehicle | space

text \<open>
  The object \<open>checkReservationConflict\<close> takes as \<open>newReservation\<close> has four fields; a
  \<open>Reservation\<close> has these and five more.
\<close>

record ReservationSlot =
  resourceId :: string
  date :: jsdate
  startTime :: string
  endTime :: string

record Reservation = ReservationSlot +
  id_r :: string
  type_r :: resource_type
  resourceName :: string
  reservedBy :: string
  purpose :: string

record ConflictCheck =
  hasConflict :: bool
  conflictingReservation :: "Reservation option"

section \<open>Conflict engine (reservationUtils.ts)\<close>

text \<open>
  The guard \<open>excludeId && reservation.id === excludeId\<close>: an absent \<open>excludeId\<close> and
  the empty string are both falsy and exclude nothing.
\<close>

definition is_excluded :: "string option \<Rightarrow> Reservation \<Rightarrow> bool" where
  "is_excluded excludeId reservation =
     (case excludeId of
        None \<Rightarrow> False
      | Some e \<Rightarrow> e \<noteq> [] \<and> id_r reservation = e)"

fun first_overlapping :: "ReservationSlot \<Rightarrow> Reservation list \<Rightarrow> ConflictCheck" where
  "first_overlapping newReservation [] = \<lparr>hasConflict = False, conflictingReservation = None\<rparr>"
| "first_overlapping newReservation (reservation # rest) =
     (if timeRangesOverlap (startTime newReservation) (endTime newReservation)
           (startTime reservation) (endTime reservation)
      then \<lparr>hasConflict = True, conflictingReservation = Some reservation\<rparr>
      else first_overlapping newReservation rest)"

definition checkReservationConflict ::
  "ReservationSlot \<Rightarrow> Reservation list \<Rightarrow> string option \<Rightarrow> ConflictCheck" where
  "checkReservationConflict newReservation existingReservations excludeId =
     (let conflictingReservations =
            filter (\<lambda>reservation.
                      if is_excluded excludeId reservation then False
                      else resourceId reservation = resourceId newReservation \<and>
                           toDateString (date reservation) = toDateString (date newReservation))
                   existingReservations
      in first_overlapping newReservation conflictingReservations)"

section \<open>Availability slot generator (reservationUtils.ts)\<close>

text \<open>
  The inner loop \<open>for (let minute = 0; minute < 60; minute += slotDuration)\<close> from a
  given \<open>minute\<close> on, with the list \<open>availableSlots\<close> it appends to. With a
  \<open>slotDuration\<close> that is not positive the loop does not end, so the result is an
  option and \<open>None\<close> stands for a loop that never returns. The \<open>slotDuration\<close> is
  taken to be an integer.
\<close>

partial_function (option) minute_loop ::
  "Reservation list \<Rightarrow> int \<Rightarrow> int \<Rightarrow> int \<Rightarrow> string list \<Rightarrow> string list option" where
  "minute_loop dayReservations slotDuration hour minute availableSlots =
     (if minute < 60 then
        (let startTime = hhmm hour minute;
             endMinutes = hour * 60 + minute + slotDuration;
             endHour = endMinutes div 60;
             endMinute = js_rem endMinutes 60;
             endTime = hhmm endHour endMinute
         in if endHour \<ge> 22 then Some availableSlots
            else
              (let hasConflict =
                     list_ex (\<lambda>reservation.
                                timeRangesOverlap startTime endTime
                                  (ReservationSlot.startTime reservation)
                                  (ReservationSlot.endTime reservation))
                             dayReservations
               in minute_loop dayReservations slotDuration hour (minute + slotDuration)
                    (if \<not> hasConflict then availableSlots @ [startTime] else availableSlots)))
      else Some availableSlots)"

declare minute_loop.simps [code]

text \<open>The outer loop \<open>for (let hour = startHour; hour < endHour; hour++)\<close>, to 22.\<close>

function hour_loop ::
  "Reservation list \<Rightarrow> int \<Rightarrow> int \<Rightarrow> string list \<Rightarrow> string list option" where
  "hour_loop dayReservations slotDuration hour availableSlots =
     (if hour < 22 then
        (case minute_loop dayReservations slotDuration hour 0 availableSlots of
           None \<Rightarrow> None
         | Some availableSlots' \<Rightarrow>
             hour_loop dayReservations slotDuration (hour + 1) availableSlots')
      else Some availableSlots)"
  by pat_completeness auto
termination
  by (relation "measure (\<lambda>(dayReservations, slotDuration, hour, availableSlots). nat (22 - hour))") auto

declare hour_loop.simps [simp del]

definition getAvailableTimeSlots ::
  "string \<Rightarrow> jsdate \<Rightarrow> Reservation list \<Rightarrow> int \<Rightarrow> string list option" where
  "getAvailableTimeSlots resourceId date existingReservations slotDuration =
     (let dayReservations =
            filter (\<lambda>reservation.
                      ReservationSlot.resourceId reservation = resourceId \<and>
                      toDateString (ReservationSlot.date reservation) = toDateString date)
                   existingReservations;
          startHour = 6
      in hour_loop dayReservations slotDuration startHour [])"
  for resourceId :: string and date :: jsdate

section \<open>Reservation store in local storage (localStorageApi.ts)\<close>

text \<open>
  The record the store keeps. The argument of \<open>create\<close> is a record without \<open>id\<close> and
  \<open>created_at\<close>; the stored record has the two more.
\<close>

record ReservationInput =
  type_api :: resource_type
  resource_id :: string
  resource_name :: string
  date_api :: string
  start_time :: string
  end_time :: string
  reserved_by :: string
  purpose_api :: string

record ReservationAPI = ReservationInput +
  id_api :: string
  created_at :: "string option"

text \<open>
  What is under the key \<open>reservation_system_data\<close>: nothing that parses (\<open>None\<close>: the
  key is absent or its text is not JSON), or the list of reservations the text parses
  to.
\<close>

type_synonym storage = "ReservationAPI list option"

definition getStoredReservations :: "storage \<Rightarrow> ReservationAPI list" where
  "getStoredReservations stored = (case stored of None \<Rightarrow> [] | Some reservations \<Rightarrow> reservations)"

text \<open>
  \<open>saveReservations\<close> catches a failing \<open>setItem\<close> and only logs it; \<open>writable\<close> tells
  whether the write goes through.
\<close>

definition saveReservations :: "bool \<Rightarrow> storage \<Rightarrow> ReservationAPI list \<Rightarrow> storage" where
  "saveReservations writable stored reservations = (if writable then Some reservations else stored)"

text \<open>
  What a call reads from its surroundings: the clock (\<open>Date.now()\<close> and the text of
  \<open>new Date().toISOString()\<close>), the characters, nine at most, cut from
  \<open>Math.random()\<close>, whether local storage takes a write, and the time zone offset in
  minutes.
\<close>

record environment =
  now_ms :: int
  now_iso :: string
  random_suffix :: string
  writable :: bool
  tzOffset :: int

datatype store_error = ReservationConflict | ReservationNotFound

text \<open>
  The condition inside \<open>allReservations.some\<close> of \<open>create\<close>. Its three clauses on the
  times are \<open>times_conflict\<close>, with the new reservation's start and end first and the
  existing one's after; the operands are strings, so \<open>\<ge>\<close> and \<open><\<close> compare them
  character by character.
\<close>

definition times_conflict :: "string \<Rightarrow> string \<Rightarrow> string \<Rightarrow> string \<Rightarrow> bool" where
  "times_conflict new_start new_end existing_start existing_end =
     ((new_start \<ge> existing_start \<and> new_start < existing_end) \<or>
      (new_end > existing_start \<and> new_end \<le> existing_end) \<or>
      (new_start \<le> existing_start \<and> new_end \<ge> existing_end))"

definition conflicts_with :: "'a ReservationInput_scheme \<Rightarrow> ReservationAPI \<Rightarrow> bool" where
  "conflicts_with reservation existing =
     (resource_id existing = resource_id reservation \<and>
      date_api existing = date_api reservation \<and>
      times_conflict (start_time reservation) (end_time reservation)
        (start_time existing) (end_time existing))"

definition fetchByMonth :: "environment \<Rightarrow> storage \<Rightarrow> int \<Rightarrow> int \<Rightarrow> ReservationAPI list" where
  "fetchByMonth env stored year month =
     (let allReservations = getStoredReservations stored;
          monthlyReservations =
            filter (\<lambda>reservation.
                      (let reservationDate = new_Date (tzOffset env) (date_api reservation)
                       in js_eq (getFullYear reservationDate) (Num year) \<and>
                          js_eq (js_add (getMonth reservationDate) (Num 1)) (Num month)))
                   allReservations
      in monthlyReservations)"

definition create ::
  "environment \<Rightarrow> storage \<Rightarrow> ReservationInput \<Rightarrow> (store_error + ReservationAPI) \<times> storage" where
  "create env stored reservation =
     (let allReservations = getStoredReservations stored;
          hasConflict = list_ex (\<lambda>existing. conflicts_with reservation existing) allReservations
      in if hasConflict then (Inl ReservationConflict, stored)
         else
           (let newReservation =
                  ReservationInput.extend reservation
                    (ReservationAPI.fields
                       (''reservation_'' @ toString_js (now_ms env) @ ''_'' @ random_suffix env)
                       (Some (now_iso env)));
                allReservations' = allReservations @ [newReservation]
            in (Inr newReservation, saveReservations (writable env) stored allReservations')))"

definition delete :: "environment \<Rightarrow> storage \<Rightarrow> string \<Rightarrow> (store_error + unit) \<times> storage" where
  "delete env stored id =
     (let allReservations = getStoredReservations stored;
          filteredReservations = filter (\<lambda>r. id_api r \<noteq> id) allReservations
      in if length filteredReservations = length allReservations
         then (Inl ReservationNotFound, stored)
         else (Inr (), saveReservations (writable env) stored filteredReservations))"
  for id :: string

section \<open>The no-overlap invariant of the store\<close>





section \<open>The slots of one hour\<close>

text \<open>
  What the inner loop of \<open>getAvailableTimeSlots\<close> adds from a given minute on, as a
  total function: with a positive \<open>slotDuration\<close> the minute grows until it reaches 60
  or the slot's end reaches hour 22. It is used to state and prove what the loop
  returns.
\<close>

function slots_in_hour :: "Reservation list \<Rightarrow> int \<Rightarrow> int \<Rightarrow> int \<Rightarrow> string list" where
  "slots_in_hour dayReservations slotDuration hour minute =
     (if 0 < slotDuration \<and> minute < 60 \<and> (hour * 60 + minute + slotDuration) div 60 < 22
      then
        (if list_ex (\<lambda>reservation.
                       timeRangesOverlap (hhmm hour minute)
                         (hhmm ((hour * 60 + minute + slotDuration) div 60)
                               (js_rem (hour * 60 + minute + slotDuration) 60))
                         (startTime reservation) (endTime reservation))
                    dayReservations
         then [] else [hhmm hour minute])
        @ slots_in_hour dayReservations slotDuration hour (minute + slotDuration)
      else [])"
  by pat_completeness auto
termination
  by (relation "measure (\<lambda>(dayReservations, slotDuration, hour, minute). nat (60 - minute))") auto

declare slots_in_hour.simps [simp del]

text \<open>
  A candidate slot is free when no reservation for the resource on the day overlaps
  the range from its start to its end, the start plus \<open>slotDuration\<close> minutes.
\<close>

definition slot_is_free ::
  "string \<Rightarrow> jsdate \<Rightarrow> Reservation list \<Rightarrow> int \<Rightarrow> int \<Rightarrow> int \<Rightarrow> bool" where
  "slot_is_free resource day existingReservations slotDuration hour minute =
     (\<not> (\<exists>reservation \<in> set existingReservations.
            resourceId reservation = resource \<and>
            toDateString (date reservation) = toDateString day \<and>
            timeRangesOverlap (hhmm hour minute)
              (hhmm ((hour * 60 + minute + slotDuration) div 60)
                    ((hour * 60 + minute + slotDuration) mod 60))
              (startTime reservation) (endTime reservation)))"

section \<open>Facts about the time texts\<close>

lemma digit_cases: "k < 10 \<Longrightarrow> k \<in> {0, 1, 2, 3, 4, 5, 6, 7, 8, 9::nat}"
  by auto

lemma of_char_digit_char: "k < 10 \<Longrightarrow> of_char (digit_char k) = 48 + k"
  using digit_cases [of k] by (auto simp: digit_char_def)

lemma is_digit_digit_char: "k < 10 \<Longrightarrow> is_digit (digit_char k)"
  by (simp add: is_digit_def less_eq_char_def of_char_digit_char del: less_eq_char_simp)

lemma digit_val_digit_char: "k < 10 \<Longrightarrow> digit_val (digit_char k) = int k"
  by (simp add: digit_val_def of_char_digit_char)

lemma is_digit_not_colon: "is_digit c \<Longrightarrow> c \<noteq> CHR '':''"
  by (auto simp: is_digit_def)

lemma digit_char_not_colon: "k < 10 \<Longrightarrow> digit_char k \<noteq> CHR '':''"
  by (simp add: is_digit_digit_char is_digit_not_colon)

lemma colon_not_digit_char: "k < 10 \<Longrightarrow> CHR '':'' \<noteq> digit_char k"
  using digit_char_not_colon [of k] by auto

lemma digit_char_less: "k < 10 \<Longrightarrow> l < 10 \<Longrightarrow> digit_char k < digit_char l \<longleftrightarrow> k < l"
  by (simp add: less_char_def of_char_digit_char del: less_char_simp)

lemma digit_char_eq: "k < 10 \<Longrightarrow> l < 10 \<Longrightarrow> digit_char k = digit_char l \<longleftrightarrow> k = l"
  by (metis of_char_digit_char add_left_cancel)

lemma toString_nat_small: "n < 10 \<Longrightarrow> toString_nat n = [digit_char n]"
  by (simp add: toString_nat.simps [of n])

lemma toString_nat_two:
  "10 \<le> n \<Longrightarrow> n < 100 \<Longrightarrow> toString_nat n = [digit_char (n div 10), digit_char (n mod 10)]"
  by (simp add: toString_nat.simps [of n] toString_nat_small)

lemma pad2:
  "n < 100 \<Longrightarrow>
   padStart 2 CHR ''0'' (toString_nat n) = [digit_char (n div 10), digit_char (n mod 10)]"
proof (cases "n < 10")
  case True
  then show ?thesis by (simp add: padStart_def toString_nat_small digit_char_def)
next
  case False
  assume "n < 100"
  with False show ?thesis by (simp add: padStart_def toString_nat_two)
qed

lemma hhmm_explicit:
  "h < 100 \<Longrightarrow> m < 100 \<Longrightarrow>
   hhmm (int h) (int m) =
     [digit_char (h div 10), digit_char (h mod 10), CHR '':'',
      digit_char (m div 10), digit_char (m mod 10)]"
  by (simp add: hhmm_def toString_js_def pad2)

lemma split_js_no_sep: "sep \<notin> set s \<Longrightarrow> split_js sep s = [s]"
  by (induction s) auto

lemma split_js_first: "sep \<notin> set s \<Longrightarrow> split_js sep (s @ sep # rest) = s # split_js sep rest"
  by (induction s) auto

lemma Number_js_two:
  "k < 10 \<Longrightarrow> l < 10 \<Longrightarrow> Number_js [digit_char k, digit_char l] = Num (int k * 10 + int l)"
  by (simp add: Number_js_def is_digit_digit_char dec_value_def digit_val_digit_char)

lemma timeToMinutes_two_parts:
  assumes "CHR '':'' \<notin> set hs" "CHR '':'' \<notin> set ms"
  shows "timeToMinutes (hs @ CHR '':'' # ms) = js_add (js_mul (Number_js hs) (Num 60)) (Number_js ms)"
proof -
  have "split_js CHR '':'' (hs @ CHR '':'' # ms) = [hs, ms]"
    using assms by (simp add: split_js_first split_js_no_sep)
  then show ?thesis
    by (simp add: timeToMinutes_def element_or_undefined_def)
qed

lemma timeToMinutes_digits:
  assumes "a < 10" "b < 10" "c < 10" "d < 10"
  shows "timeToMinutes [digit_char a, digit_char b, CHR '':'', digit_char c, digit_char d]
         = Num ((int a * 10 + int b) * 60 + (int c * 10 + int d))"
proof -
  have "timeToMinutes ([digit_char a, digit_char b] @ CHR '':'' # [digit_char c, digit_char d])
        = js_add (js_mul (Number_js [digit_char a, digit_char b]) (Num 60))
                 (Number_js [digit_char c, digit_char d])"
    by (rule timeToMinutes_two_parts) (simp_all add: colon_not_digit_char assms)
  then show ?thesis
    by (simp add: Number_js_two assms)
qed

lemma int_digits: "int (h div 10) * 10 + int (h mod 10) = int h"
  by presburger

lemma timeToMinutes_hhmm:
  assumes "h < 100" "m < 100"
  shows "timeToMinutes (hhmm (int h) (int m)) = Num (int h * 60 + int m)"
proof -
  have d: "h div 10 < 10" "h mod 10 < 10" "m div 10 < 10" "m mod 10 < 10"
    using assms by auto
  have "timeToMinutes (hhmm (int h) (int m)) =
        Num ((int (h div 10) * 10 + int (h mod 10)) * 60 + (int (m div 10) * 10 + int (m mod 10)))"
    unfolding hhmm_explicit [OF assms] by (rule timeToMinutes_digits [OF d])
  then show ?thesis
    unfolding int_digits .
qed

lemma lex_lin:
  "r1 < 10 \<Longrightarrow> r2 < 10 \<Longrightarrow>
   10 * q1 + r1 < 10 * q2 + r2 \<longleftrightarrow> q1 < q2 \<or> q1 = q2 \<and> r1 < (r2::nat)"
  by linarith

lemma lex_digits:
  "a < b \<longleftrightarrow> a div 10 < b div 10 \<or> a div 10 = b div 10 \<and> a mod 10 < (b mod 10 :: nat)"
  using lex_lin [of "a mod 10" "b mod 10" "a div 10" "b div 10"] by simp

lemma eq_digits: "a = b \<longleftrightarrow> a div 10 = b div 10 \<and> a mod 10 = (b mod 10 :: nat)"
  by (metis div_mult_mod_eq)

lemma hhmm_less:
  assumes "h1 < 100" "m1 < 100" "h2 < 100" "m2 < 100"
  shows "hhmm (int h1) (int m1) < hhmm (int h2) (int m2) \<longleftrightarrow> h1 < h2 \<or> h1 = h2 \<and> m1 < m2"
proof -
  have d: "h1 div 10 < 10" "h1 mod 10 < 10" "m1 div 10 < 10" "m1 mod 10 < 10"
     "h2 div 10 < 10" "h2 mod 10 < 10" "m2 div 10 < 10" "m2 mod 10 < 10"
    using assms by auto
  have "hhmm (int h1) (int m1) < hhmm (int h2) (int m2) \<longleftrightarrow>
        (h1 div 10 < h2 div 10 \<or> h1 div 10 = h2 div 10 \<and>
          (h1 mod 10 < h2 mod 10 \<or> h1 mod 10 = h2 mod 10 \<and>
            (m1 div 10 < m2 div 10 \<or> m1 div 10 = m2 div 10 \<and> m1 mod 10 < m2 mod 10)))"
    by (simp add: hhmm_explicit assms digit_char_less digit_char_eq d del: less_char_simp)
  then show ?thesis
    using lex_digits [of h1 h2] lex_digits [of m1 m2] eq_digits [of h1 h2] by blast
qed

lemma hhmm_less_minutes:
  assumes "h1 < 100" "m1 < 60" "h2 < 100" "m2 < 60"
  shows "hhmm (int h1) (int m1) < hhmm (int h2) (int m2) \<longleftrightarrow> h1 * 60 + m1 < h2 * 60 + m2"
proof -
  have "hhmm (int h1) (int m1) < hhmm (int h2) (int m2) \<longleftrightarrow> h1 < h2 \<or> h1 = h2 \<and> m1 < m2"
    using assms by (intro hhmm_less) auto
  also have "\<dots> \<longleftrightarrow> h1 * 60 + m1 < h2 * 60 + m2"
    using assms by auto
  finally show ?thesis .
qed

lemma hhmm_inj:
  assumes "h1 < 100" "m1 < 100" "h2 < 100" "m2 < 100"
    and "hhmm (int h1) (int m1) = hhmm (int h2) (int m2)"
  shows "h1 = h2 \<and> m1 = m2"
proof -
  have "\<not> (h1 < h2 \<or> h1 = h2 \<and> m1 < m2)" "\<not> (h2 < h1 \<or> h2 = h1 \<and> m2 < m1)"
    using hhmm_less [OF assms(1-4)] hhmm_less [OF assms(3,4,1,2)] assms(5) by auto
  then show ?thesis by auto
qed

lemma is_digit_cases: 
  assumes "is_digit c" shows "\<exists>k<10. c = digit_char k \<and> digit_val c = int k"
proof -
  define n where "n = (of_char c :: nat)"
  have "48 \<le> n" "n \<le> 57"
    using assms by (simp_all add: is_digit_def less_eq_char_def n_def del: less_eq_char_simp)
  then have "n - 48 < 10" "n = 48 + (n - 48)" by auto
  moreover have "c = char_of n" by (simp add: n_def)
  ultimately have "c = digit_char (n - 48)"
    using of_char_digit_char [of "n - 48"]
    by (metis of_char_eq_iff n_def)
  moreover have "digit_val c = int (n - 48)"
    using \<open>48 \<le> n\<close> by (simp add: digit_val_def n_def)
  ultimately show ?thesis using \<open>n - 48 < 10\<close> by blast
qed

lemma wf_time_digits:
  assumes "a < 10" "b < 10" "c < 10" "d < 10"
  shows "wf_time [digit_char a, digit_char b, CHR '':'', digit_char c, digit_char d]
         \<longleftrightarrow> a * 10 + b \<le> 23 \<and> c * 10 + d \<le> 59"
proof -
  have "int a * 10 + int b \<le> 23 \<longleftrightarrow> a * 10 + b \<le> 23" "int c * 10 + int d \<le> 59 \<longleftrightarrow> c * 10 + d \<le> 59"
    by linarith+
  then show ?thesis
    by (simp add: wf_time_def is_digit_digit_char digit_val_digit_char assms)
qed

lemma wf_time_hhmm: "wf_time s \<longleftrightarrow> (\<exists>h m. h < 24 \<and> m < 60 \<and> s = hhmm (int h) (int m))"
proof
  assume "wf_time s"
  then obtain a b c d e where s: "s = [a, b, c, d, e]"
    and dg: "is_digit a" "is_digit b" "c = CHR '':''" "is_digit d" "is_digit e"
    and rg: "digit_val a * 10 + digit_val b \<le> 23" "digit_val d * 10 + digit_val e \<le> 59"
    by (auto simp: wf_time_def split: list.splits)
  obtain ka kb kd ke where k: "ka < 10" "a = digit_char ka" "digit_val a = int ka"
     "kb < 10" "b = digit_char kb" "digit_val b = int kb"
     "kd < 10" "d = digit_char kd" "digit_val d = int kd"
     "ke < 10" "e = digit_char ke" "digit_val e = int ke"
    using is_digit_cases dg by metis
  define h where "h = ka * 10 + kb"
  define m where "m = kd * 10 + ke"
  have hm: "h < 24" "m < 60" using rg k by (simp_all add: h_def m_def)
  have dv: "h div 10 = ka" "h mod 10 = kb" "m div 10 = kd" "m mod 10 = ke"
    using k by (simp_all add: h_def m_def)
  have "s = hhmm (int h) (int m)"
    using hm by (simp add: hhmm_explicit dv s k dg)
  with hm show "\<exists>h m. h < 24 \<and> m < 60 \<and> s = hhmm (int h) (int m)" by blast
next
  assume "\<exists>h m. h < 24 \<and> m < 60 \<and> s = hhmm (int h) (int m)"
  then obtain h m where hm: "h < 24" "m < 60" "s = hhmm (int h) (int m)" by blast
  have d: "h div 10 < 10" "h mod 10 < 10" "m div 10 < 10" "m mod 10 < 10"
    using hm by auto
  have "h div 10 * 10 + h mod 10 \<le> 23" "m div 10 * 10 + m mod 10 \<le> 59"
    using hm by simp_all
  then show "wf_time s"
    using hm by (simp add: hhmm_explicit wf_time_digits d)
qed

section \<open>Time utilities: overlap law, validation, parsing\<close>

text \<open>
  Claim C2. For well-formed zero-padded times (hour below 24, minute below 60)
  \<open>timeRangesOverlap\<close> is true exactly when the first start is before the second end and
  the second start is before the first end, counted in minutes since midnight. Two
  ranges that only touch at an end point do not overlap.
\<close>

theorem timeRangesOverlap_half_open:
  assumes "h1 < 24" "m1 < 60" "h2 < 24" "m2 < 60" "h3 < 24" "m3 < 60" "h4 < 24" "m4 < 60"
  shows "(timeRangesOverlap (hhmm (int h1) (int m1)) (hhmm (int h2) (int m2))
            (hhmm (int h3) (int m3)) (hhmm (int h4) (int m4))
          \<longleftrightarrow> h1 * 60 + m1 < h4 * 60 + m4 \<and> h3 * 60 + m3 < h2 * 60 + m2)
       \<and> \<not> timeRangesOverlap (hhmm (int h1) (int m1)) (hhmm (int h2) (int m2))
            (hhmm (int h2) (int m2)) (hhmm (int h4) (int m4))
       \<and> \<not> timeRangesOverlap (hhmm (int h1) (int m1)) (hhmm (int h2) (int m2))
            (hhmm (int h3) (int m3)) (hhmm (int h1) (int m1))"
proof -
  have t: "timeToMinutes (hhmm (int h1) (int m1)) = Num (int h1 * 60 + int m1)"
     "timeToMinutes (hhmm (int h2) (int m2)) = Num (int h2 * 60 + int m2)"
     "timeToMinutes (hhmm (int h3) (int m3)) = Num (int h3 * 60 + int m3)"
     "timeToMinutes (hhmm (int h4) (int m4)) = Num (int h4 * 60 + int m4)"
    using assms by (simp_all add: timeToMinutes_hhmm)
  have "int h1 * 60 + int m1 < int h4 * 60 + int m4 \<longleftrightarrow> h1 * 60 + m1 < h4 * 60 + m4"
       "int h3 * 60 + int m3 < int h2 * 60 + int m2 \<longleftrightarrow> h3 * 60 + m3 < h2 * 60 + m2"
    by linarith+
  then show ?thesis
    by (simp add: timeRangesOverlap_def t)
qed

theorem timeRangesOverlap_half_open_witness:
  "timeRangesOverlap ''09:00'' ''10:30'' ''10:00'' ''11:00'' \<and>
   \<not> timeRangesOverlap ''09:00'' ''10:00'' ''10:00'' ''11:00'' \<and>
   \<not> timeRangesOverlap ''10:00'' ''11:00'' ''09:00'' ''10:00''"
proof -
  have s: "hhmm 9 0 = ''09:00''" "hhmm 10 30 = ''10:30''" "hhmm 10 0 = ''10:00''"
    "hhmm 11 0 = ''11:00''"
    by code_simp+
  show ?thesis
    using timeRangesOverlap_half_open [of 9 0 10 30 10 0 11 0]
      timeRangesOverlap_half_open [of 9 0 10 0 10 0 11 0]
      timeRangesOverlap_half_open [of 10 0 11 0 9 0 10 0]
    by (simp add: s)
qed

text \<open>
  Claim C5. On well-formed times \<open>validateReservationTime\<close> reports the ordering error
  exactly when the start is not before the end; otherwise the minimum-duration error
  exactly when the end is less than 30 minutes after the start; otherwise it reports a
  valid range. The function is a value of its two arguments and nothing else.
\<close>

theorem validateReservationTime_cases:
  assumes "h1 < 24" "m1 < 60" "h2 < 24" "m2 < 60"
  shows "validateReservationTime (hhmm (int h1) (int m1)) (hhmm (int h2) (int m2)) =
           (if h1 * 60 + m1 \<ge> h2 * 60 + m2
            then \<lparr>isValid = False, error = Some EndNotAfterStart\<rparr>
            else if int (h2 * 60 + m2) - int (h1 * 60 + m1) < 30
            then \<lparr>isValid = False, error = Some BelowMinimumDuration\<rparr>
            else \<lparr>isValid = True, error = None\<rparr>)"
proof -
  have t: "timeToMinutes (hhmm (int h1) (int m1)) = Num (int h1 * 60 + int m1)"
     "timeToMinutes (hhmm (int h2) (int m2)) = Num (int h2 * 60 + int m2)"
    using assms by (simp_all add: timeToMinutes_hhmm)
  have "int h2 * 60 + int m2 \<le> int h1 * 60 + int m1 \<longleftrightarrow> h2 * 60 + m2 \<le> h1 * 60 + m1"
    by linarith
  then show ?thesis
    by (simp add: validateReservationTime_def t)
qed

theorem validateReservationTime_cases_witness:
  "validateReservationTime ''10:00'' ''09:00'' = \<lparr>isValid = False, error = Some EndNotAfterStart\<rparr> \<and>
   validateReservationTime ''09:00'' ''09:00'' = \<lparr>isValid = False, error = Some EndNotAfterStart\<rparr> \<and>
   validateReservationTime ''09:00'' ''09:29'' = \<lparr>isValid = False, error = Some BelowMinimumDuration\<rparr> \<and>
   validateReservationTime ''09:00'' ''09:30'' = \<lparr>isValid = True, error = None\<rparr>"
proof -
  have s: "hhmm 9 0 = ''09:00''" "hhmm 10 0 = ''10:00''" "hhmm 9 29 = ''09:29''"
    "hhmm 9 30 = ''09:30''"
    by code_simp+
  show ?thesis
    using validateReservationTime_cases [of 10 0 9 0] validateReservationTime_cases [of 9 0 9 0]
      validateReservationTime_cases [of 9 0 9 29] validateReservationTime_cases [of 9 0 9 30]
    by (simp add: s)
qed

text \<open>
  Claim C8, as stated, fails: \<open>timeToMinutes\<close> has no failure path. An hour and a minute
  out of range give a number, a third part is ignored, and a text without colon or
  with letters gives \<open>NaN\<close>, which is a value of the number type and not an error.
\<close>

theorem timeToMinutes_parse_error_counterexample:
  "timeToMinutes ''25:99'' = Num 1599 \<and> timeToMinutes ''12:30:45'' = Num 750 \<and>
   timeToMinutes ''1230'' = NaN \<and> timeToMinutes ''ab:cd'' = NaN"
  by code_simp

text \<open>
  Claim C8, amended. \<open>timeToMinutes\<close> has no parse error: it is a value of the number
  type for every text. When the first two parts are decimal digits (at most 14 of them
  each) it returns the first times 60 plus the second, whether or not they are in
  range, and ignores every further part; a text of digits without a colon gives
  \<open>NaN\<close>.
\<close>

theorem timeToMinutes_total:
  assumes "list_all is_digit hs" "list_all is_digit ms" "length hs \<le> 14" "length ms \<le> 14"
  shows "timeToMinutes (hs @ CHR '':'' # ms) = Num (dec_value hs * 60 + dec_value ms) \<and>
         timeToMinutes (hs @ CHR '':'' # ms @ CHR '':'' # rest) = Num (dec_value hs * 60 + dec_value ms) \<and>
         timeToMinutes hs = NaN"
proof -
  have n: "CHR '':'' \<notin> set hs" "CHR '':'' \<notin> set ms"
    using assms is_digit_not_colon by (auto simp: list_all_iff)
  have "split_js CHR '':'' (hs @ CHR '':'' # ms @ CHR '':'' # rest) = hs # ms # split_js CHR '':'' rest"
    using n by (simp add: split_js_first)
  then have "timeToMinutes (hs @ CHR '':'' # ms @ CHR '':'' # rest) =
             js_add (js_mul (Number_js hs) (Num 60)) (Number_js ms)"
    by (simp add: timeToMinutes_def element_or_undefined_def)
  moreover have "timeToMinutes hs = NaN"
    using n by (simp add: timeToMinutes_def split_js_no_sep element_or_undefined_def)
  ultimately show ?thesis
    using assms n by (simp add: timeToMinutes_two_parts Number_js_def)
qed

theorem timeToMinutes_total_witness:
  "timeToMinutes ''25:99'' = Num (25 * 60 + 99) \<and> timeToMinutes ''25:99:07'' = Num (25 * 60 + 99) \<and>
   timeToMinutes ''25'' = NaN"
proof -
  have d: "list_all is_digit ''25''" "list_all is_digit ''99''"
    by (simp_all add: is_digit_def)
  have v: "dec_value ''25'' = 25" "dec_value ''99'' = 99"
    by (simp_all add: dec_value_def digit_val_def)
  show ?thesis
    using timeToMinutes_total [of "''25''" "''99''" "''07''"] d v by simp
qed

section \<open>Conflict engine\<close>

lemma first_overlapping_find:
  "first_overlapping n rs =
     (case find (\<lambda>r. timeRangesOverlap (startTime n) (endTime n) (startTime r) (endTime r)) rs of
        None \<Rightarrow> \<lparr>hasConflict = False, conflictingReservation = None\<rparr>
      | Some r \<Rightarrow> \<lparr>hasConflict = True, conflictingReservation = Some r\<rparr>)"
  by (induction rs) simp_all

lemma find_filter: "find P (filter Q xs) = find (\<lambda>x. Q x \<and> P x) xs"
  by (induction xs) simp_all

lemma is_excluded_iff: "is_excluded ex r \<longleftrightarrow> ex \<noteq> Some [] \<and> ex = Some (id_r r)"
  by (auto simp: is_excluded_def split: option.splits)

lemma toDateString_eq_iff:
  "toDateString d1 = toDateString d2 \<longleftrightarrow>
     (d1 = InvalidDate \<and> d2 = InvalidDate) \<or>
     (\<exists>y m d. d1 = LocalDate y m d \<and> d2 = LocalDate y m d)"
  by (cases d1; cases d2) auto

text \<open>
  Claim C4, as stated, fails in two corner cases. An empty \<open>excludeId\<close> is falsy, so the
  guard does not exclude a reservation whose id is the empty string; and two invalid
  dates show the same \<open>toDateString\<close> text, so they count as the same day although
  neither has a year, month or day.
\<close>

theorem checkReservationConflict_counterexample:
  "checkReservationConflict
     \<lparr>resourceId = ''space-a'', date = LocalDate 2024 2 15, startTime = ''09:00'', endTime = ''10:00''\<rparr>
     [\<lparr>resourceId = ''space-a'', date = LocalDate 2024 2 15, startTime = ''09:30'', endTime = ''10:30'',
       id_r = '''', type_r = space, resourceName = ''room'', reservedBy = ''kim'', purpose = ''talk''\<rparr>]
     (Some '''')
   = \<lparr>hasConflict = True,
      conflictingReservation =
        Some \<lparr>resourceId = ''space-a'', date = LocalDate 2024 2 15, startTime = ''09:30'', endTime = ''10:30'',
          id_r = '''', type_r = space, resourceName = ''room'', reservedBy = ''kim'', purpose = ''talk''\<rparr>\<rparr>
   \<and> hasConflict (checkReservationConflict
     \<lparr>resourceId = ''space-a'', date = InvalidDate, startTime = ''09:00'', endTime = ''10:00''\<rparr>
     [\<lparr>resourceId = ''space-a'', date = InvalidDate, startTime = ''09:30'', endTime = ''10:30'',
       id_r = ''r1'', type_r = space, resourceName = ''room'', reservedBy = ''kim'', purpose = ''talk''\<rparr>]
     None)"
  by code_simp

text \<open>
  Claim C4, amended. \<open>checkReservationConflict\<close> returns the first reservation in input
  order that has the candidate's \<open>resourceId\<close>, shows the same \<open>toDateString\<close> text as
  the candidate's date (the same local year, month and day, or both dates invalid), is
  not the one named by a non-empty \<open>excludeId\<close>, and overlaps the candidate's time range
  under \<open>timeRangesOverlap\<close>. It reports no conflict exactly when the list holds no such
  reservation.
\<close>

theorem checkReservationConflict_first_match:
  "checkReservationConflict n rs ex =
     (case find (\<lambda>r. (ex = Some [] \<or> ex \<noteq> Some (id_r r)) \<and>
                      resourceId r = resourceId n \<and>
                      toDateString (date r) = toDateString (date n) \<and>
                      timeRangesOverlap (startTime n) (endTime n) (startTime r) (endTime r)) rs of
        None \<Rightarrow> \<lparr>hasConflict = False, conflictingReservation = None\<rparr>
      | Some r \<Rightarrow> \<lparr>hasConflict = True, conflictingReservation = Some r\<rparr>)
   \<and> (hasConflict (checkReservationConflict n rs ex) \<longleftrightarrow>
        (\<exists>r \<in> set rs. (ex = Some [] \<or> ex \<noteq> Some (id_r r)) \<and>
                      resourceId r = resourceId n \<and>
                      toDateString (date r) = toDateString (date n) \<and>
                      timeRangesOverlap (startTime n) (endTime n) (startTime r) (endTime r)))"
proof -
  let ?P = "\<lambda>r. (ex = Some [] \<or> ex \<noteq> Some (id_r r)) \<and>
                      resourceId r = resourceId n \<and>
                      toDateString (date r) = toDateString (date n) \<and>
                      timeRangesOverlap (startTime n) (endTime n) (startTime r) (endTime r)"
  have q: "(\<lambda>r. (if is_excluded ex r then False
                 else resourceId r = resourceId n \<and> toDateString (date r) = toDateString (date n)) \<and>
                timeRangesOverlap (startTime n) (endTime n) (startTime r) (endTime r)) = ?P"
    by (auto simp: is_excluded_iff fun_eq_iff)
  have eq: "checkReservationConflict n rs ex =
     (case find ?P rs of
        None \<Rightarrow> \<lparr>hasConflict = False, conflictingReservation = None\<rparr>
      | Some r \<Rightarrow> \<lparr>hasConflict = True, conflictingReservation = Some r\<rparr>)"
    unfolding checkReservationConflict_def Let_def first_overlapping_find find_filter q ..
  have "hasConflict (checkReservationConflict n rs ex) \<longleftrightarrow> find ?P rs \<noteq> None"
    unfolding eq by (simp split: option.splits)
  also have "\<dots> \<longleftrightarrow> (\<exists>r \<in> set rs. ?P r)"
    unfolding find_None_iff by blast
  finally show ?thesis using eq by blast
qed

theorem checkReservationConflict_first_match_witness:
  "checkReservationConflict
     \<lparr>resourceId = ''space-a'', date = LocalDate 2024 2 15, startTime = ''09:00'', endTime = ''10:00''\<rparr>
     [\<lparr>resourceId = ''space-a'', date = LocalDate 2024 2 15, startTime = ''08:00'', endTime = ''09:00'',
       id_r = ''r1'', type_r = space, resourceName = ''room'', reservedBy = ''lee'', purpose = ''class''\<rparr>,
      \<lparr>resourceId = ''space-a'', date = LocalDate 2024 2 15, startTime = ''09:30'', endTime = ''10:30'',
       id_r = ''r2'', type_r = space, resourceName = ''room'', reservedBy = ''kim'', purpose = ''talk''\<rparr>,
      \<lparr>resourceId = ''space-a'', date = LocalDate 2024 2 15, startTime = ''09:45'', endTime = ''11:00'',
       id_r = ''r3'', type_r = space, resourceName = ''room'', reservedBy = ''park'', purpose = ''party''\<rparr>]
     (Some ''r9'')
   = \<lparr>hasConflict = True,
      conflictingReservation =
        Some \<lparr>resourceId = ''space-a'', date = LocalDate 2024 2 15, startTime = ''09:30'', endTime = ''10:30'',
          id_r = ''r2'', type_r = space, resourceName = ''room'', reservedBy = ''kim'', purpose = ''talk''\<rparr>\<rparr>"
proof -
  have t: "\<not> timeRangesOverlap ''09:00'' ''10:00'' ''08:00'' ''09:00''"
    "timeRangesOverlap ''09:00'' ''10:00'' ''09:30'' ''10:30''"
    by code_simp+
  show ?thesis
    using checkReservationConflict_first_match [of
      "\<lparr>resourceId = ''space-a'', date = LocalDate 2024 2 15, startTime = ''09:00'', endTime = ''10:00''\<rparr>"
      "[\<lparr>resourceId = ''space-a'', date = LocalDate 2024 2 15, startTime = ''08:00'', endTime = ''09:00'',
       id_r = ''r1'', type_r = space, resourceName = ''room'', reservedBy = ''lee'', purpose = ''class''\<rparr>,
      \<lparr>resourceId = ''space-a'', date = LocalDate 2024 2 15, startTime = ''09:30'', endTime = ''10:30'',
       id_r = ''r2'', type_r = space, resourceName = ''room'', reservedBy = ''kim'', purpose = ''talk''\<rparr>,
      \<lparr>resourceId = ''space-a'', date = LocalDate 2024 2 15, startTime = ''09:45'', endTime = ''11:00'',
       id_r = ''r3'', type_r = space, resourceName = ''room'', reservedBy = ''park'', purpose = ''party''\<rparr>]"
      "Some ''r9''"]
    by (simp add: t)
qed

section \<open>Reservation store\<close>

lemma overlap_imp_times_conflict:
  fixes s e S E :: string
  assumes "s < E" "S < e"
  shows "times_conflict s e S E"
  using assms unfolding times_conflict_def by (metis less_le_not_le linear)

lemma times_conflict_imp_overlap:
  fixes s e S E :: string
  assumes "times_conflict s e S E" "s < e" "S < E"
  shows "s < E \<and> S < e"
  using assms unfolding times_conflict_def by (metis le_less_trans less_le_trans)

lemma wf_time_less:
  assumes "wf_time a" "wf_time b"
  shows "js_lt (timeToMinutes a) (timeToMinutes b) \<longleftrightarrow> a < b"
proof -
  obtain h1 m1 h2 m2 where a: "h1 < 24" "m1 < 60" "a = hhmm (int h1) (int m1)"
    and b: "h2 < 24" "m2 < 60" "b = hhmm (int h2) (int m2)"
    using assms unfolding wf_time_hhmm by blast
  have "a < b \<longleftrightarrow> h1 * 60 + m1 < h2 * 60 + m2"
    using a b by (simp add: hhmm_less_minutes)
  moreover have "timeToMinutes a = Num (int h1 * 60 + int m1)" "timeToMinutes b = Num (int h2 * 60 + int m2)"
    using a b by (simp_all add: timeToMinutes_hhmm)
  moreover have "int h1 * 60 + int m1 < int h2 * 60 + int m2 \<longleftrightarrow> h1 * 60 + m1 < h2 * 60 + m2"
    by linarith
  ultimately show ?thesis by simp
qed

lemma wf_overlap_text:
  assumes "wf_time s" "wf_time e" "wf_time S" "wf_time E"
  shows "timeRangesOverlap s e S E \<longleftrightarrow> s < E \<and> S < e"
  using assms by (simp add: timeRangesOverlap_def wf_time_less)






lemma create_success:
  "\<not> list_ex (conflicts_with reservation) (getStoredReservations stored) \<Longrightarrow>
   create env stored reservation =
     (Inr (ReservationInput.extend reservation
            (ReservationAPI.fields
               (''reservation_'' @ toString_js (now_ms env) @ ''_'' @ random_suffix env)
               (Some (now_iso env)))),
      saveReservations (writable env) stored
        (getStoredReservations stored @
         [ReservationInput.extend reservation
            (ReservationAPI.fields
               (''reservation_'' @ toString_js (now_ms env) @ ''_'' @ random_suffix env)
               (Some (now_iso env)))]))"
  by (simp add: create_def Let_def)

lemma extend_fields [simp]:
  "resource_id (ReservationInput.extend r x) = resource_id r"
  "date_api (ReservationInput.extend r x) = date_api r"
  "start_time (ReservationInput.extend r x) = start_time r"
  "end_time (ReservationInput.extend r x) = end_time r"
  by (simp_all add: ReservationInput.defs)

lemma truncate_extend:
  "ReservationInput.truncate (ReservationInput.extend (r :: ReservationInput) x) = r"
  by (cases r) (simp add: ReservationInput.defs)

lemma toString_nat_numeral:
  "toString_nat (numeral k) =
     (if (numeral k :: nat) < 10 then [digit_char (numeral k)]
      else toString_nat (numeral k div 10) @ [digit_char (numeral k mod 10)])"
  by (rule toString_nat.simps)

lemma toString_js_numeral: "toString_js 1700000000000 = ''1700000000000''"
  by (simp add: toString_js_def toString_nat_numeral toString_nat_small digit_char_def)

text \<open>
  Claim C9, as stated, fails when a range is not a proper interval: for the candidate
  10:00 to 09:00 against the existing 09:30 to 10:30 the first clause of the store's
  predicate holds, and \<open>timeRangesOverlap\<close> is false.
\<close>

theorem times_conflict_counterexample:
  "times_conflict ''10:00'' ''09:00'' ''09:30'' ''10:30'' \<and>
   \<not> timeRangesOverlap ''10:00'' ''09:00'' ''09:30'' ''10:30''"
  by code_simp

text \<open>
  Claim C9, amended. For well-formed zero-padded times with the candidate's start
  before its end and the existing reservation's start before its end, the three-clause
  string comparison of \<open>create\<close> and \<open>timeRangesOverlap\<close> decide the same relation.
\<close>

theorem times_conflict_refines_overlap:
  assumes "h1 < 24" "m1 < 60" "h2 < 24" "m2 < 60" "h3 < 24" "m3 < 60" "h4 < 24" "m4 < 60"
    and "h1 * 60 + m1 < h2 * 60 + m2" "h3 * 60 + m3 < h4 * 60 + m4"
  shows "times_conflict (hhmm (int h1) (int m1)) (hhmm (int h2) (int m2))
            (hhmm (int h3) (int m3)) (hhmm (int h4) (int m4))
         \<longleftrightarrow> timeRangesOverlap (hhmm (int h1) (int m1)) (hhmm (int h2) (int m2))
            (hhmm (int h3) (int m3)) (hhmm (int h4) (int m4))"
proof -
  let ?s = "hhmm (int h1) (int m1)" and ?e = "hhmm (int h2) (int m2)"
  let ?S = "hhmm (int h3) (int m3)" and ?E = "hhmm (int h4) (int m4)"
  have wf: "wf_time ?s" "wf_time ?e" "wf_time ?S" "wf_time ?E"
    unfolding wf_time_hhmm using assms(1-8) by blast+
  have ord: "?s < ?e" "?S < ?E"
    using assms by (simp_all add: hhmm_less_minutes)
  have "times_conflict ?s ?e ?S ?E \<longleftrightarrow> ?s < ?E \<and> ?S < ?e"
    using ord overlap_imp_times_conflict times_conflict_imp_overlap by blast
  then show ?thesis
    by (simp add: wf_overlap_text wf)
qed

theorem times_conflict_refines_overlap_witness:
  "times_conflict ''09:00'' ''10:00'' ''09:30'' ''10:30'' \<and>
   timeRangesOverlap ''09:00'' ''10:00'' ''09:30'' ''10:30'' \<and>
   \<not> times_conflict ''09:00'' ''10:00'' ''10:00'' ''11:00'' \<and>
   \<not> timeRangesOverlap ''09:00'' ''10:00'' ''10:00'' ''11:00''"
proof -
  have s: "hhmm 9 0 = ''09:00''" "hhmm 10 0 = ''10:00''" "hhmm 9 30 = ''09:30''"
    "hhmm 10 30 = ''10:30''" "hhmm 11 0 = ''11:00''"
    by code_simp+
  have t: "times_conflict ''09:00'' ''10:00'' ''09:30'' ''10:30''"
    "\<not> times_conflict ''09:00'' ''10:00'' ''10:00'' ''11:00''"
    by (simp_all add: times_conflict_def)
  show ?thesis
    using times_conflict_refines_overlap [of 9 0 10 0 9 30 10 30]
      times_conflict_refines_overlap [of 9 0 10 0 10 0 11 0] t
    by (simp add: s)
qed

text \<open>
  Claim C10. When \<open>create\<close> fails with the conflict error, and when \<open>delete\<close> fails with
  the not-found error, what is stored is what was stored before the call.
\<close>

theorem failed_call_keeps_storage:
  "(fst (create env stored reservation) = Inl ReservationConflict \<longrightarrow>
      snd (create env stored reservation) = stored) \<and>
   (fst (delete env stored id) = Inl ReservationNotFound \<longrightarrow>
      snd (delete env stored id) = stored)"
  for id :: string
  by (simp add: create_def delete_def Let_def)

theorem failed_call_keeps_storage_witness:
  "create
     \<lparr>now_ms = 1700000000000, now_iso = ''2023-11-14T22:13:20.000Z'', random_suffix = ''k3j9x0q2m'',
      writable = True, tzOffset = -540\<rparr>
     (Some [\<lparr>type_api = space, resource_id = ''space-a'', resource_name = ''room'',
             date_api = ''2024-03-15'', start_time = ''09:00'', end_time = ''10:00'',
             reserved_by = ''kim'', purpose_api = ''talk'', id_api = ''reservation_1_aaaaaaaaa'',
             created_at = Some ''2023-11-01T00:00:00.000Z''\<rparr>])
     \<lparr>type_api = space, resource_id = ''space-a'', resource_name = ''room'',
      date_api = ''2024-03-15'', start_time = ''09:30'', end_time = ''10:30'',
      reserved_by = ''lee'', purpose_api = ''class''\<rparr>
   = (Inl ReservationConflict,
      Some [\<lparr>type_api = space, resource_id = ''space-a'', resource_name = ''room'',
             date_api = ''2024-03-15'', start_time = ''09:00'', end_time = ''10:00'',
             reserved_by = ''kim'', purpose_api = ''talk'', id_api = ''reservation_1_aaaaaaaaa'',
             created_at = Some ''2023-11-01T00:00:00.000Z''\<rparr>])
   \<and> delete
     \<lparr>now_ms = 1700000000000, now_iso = ''2023-11-14T22:13:20.000Z'', random_suffix = ''k3j9x0q2m'',
      writable = True, tzOffset = -540\<rparr>
     (Some [\<lparr>type_api = space, resource_id = ''space-a'', resource_name = ''room'',
             date_api = ''2024-03-15'', start_time = ''09:00'', end_time = ''10:00'',
             reserved_by = ''kim'', purpose_api = ''talk'', id_api = ''reservation_1_aaaaaaaaa'',
             created_at = Some ''2023-11-01T00:00:00.000Z''\<rparr>])
     ''reservation_2_bbbbbbbbb''
   = (Inl ReservationNotFound,
      Some [\<lparr>type_api = space, resource_id = ''space-a'', resource_name = ''room'',
             date_api = ''2024-03-15'', start_time = ''09:00'', end_time = ''10:00'',
             reserved_by = ''kim'', purpose_api = ''talk'', id_api = ''reservation_1_aaaaaaaaa'',
             created_at = Some ''2023-11-01T00:00:00.000Z''\<rparr>])"
proof -
  let ?env = "\<lparr>now_ms = 1700000000000, now_iso = ''2023-11-14T22:13:20.000Z'', random_suffix = ''k3j9x0q2m'',
      writable = True, tzOffset = -540\<rparr>"
  let ?st = "Some [\<lparr>type_api = space, resource_id = ''space-a'', resource_name = ''room'',
             date_api = ''2024-03-15'', start_time = ''09:00'', end_time = ''10:00'',
             reserved_by = ''kim'', purpose_api = ''talk'', id_api = ''reservation_1_aaaaaaaaa'',
             created_at = Some ''2023-11-01T00:00:00.000Z''\<rparr>]"
  let ?c = "\<lparr>type_api = space, resource_id = ''space-a'', resource_name = ''room'',
      date_api = ''2024-03-15'', start_time = ''09:30'', end_time = ''10:30'',
      reserved_by = ''lee'', purpose_api = ''class''\<rparr>"
  have 1: "fst (create ?env ?st ?c) = Inl ReservationConflict"
    by (simp add: create_def getStoredReservations_def conflicts_with_def times_conflict_def)
  have 2: "fst (delete ?env ?st ''reservation_2_bbbbbbbbb'') = Inl ReservationNotFound"
    by (simp add: delete_def getStoredReservations_def)
  show ?thesis
    using failed_call_keeps_storage [of ?env ?st ?c "''reservation_2_bbbbbbbbb''"] 1 2
    by (simp add: prod_eq_iff)
qed

text \<open>
  Claim C3, as stated, fails: \<open>create\<close> never calls the validator and has no validation
  error. On an empty store it stores a candidate that ends an hour before it starts.
\<close>

theorem create_validation_counterexample:
  "create
     \<lparr>now_ms = 1700000000000, now_iso = ''2023-11-14T22:13:20.000Z'', random_suffix = ''k3j9x0q2m'',
      writable = True, tzOffset = -540\<rparr>
     None
     \<lparr>type_api = space, resource_id = ''space-a'', resource_name = ''room'',
      date_api = ''2024-03-15'', start_time = ''10:00'', end_time = ''09:00'',
      reserved_by = ''lee'', purpose_api = ''class''\<rparr>
   = (Inr \<lparr>type_api = space, resource_id = ''space-a'', resource_name = ''room'',
           date_api = ''2024-03-15'', start_time = ''10:00'', end_time = ''09:00'',
           reserved_by = ''lee'', purpose_api = ''class'', id_api = ''reservation_1700000000000_k3j9x0q2m'',
           created_at = Some ''2023-11-14T22:13:20.000Z''\<rparr>,
      Some [\<lparr>type_api = space, resource_id = ''space-a'', resource_name = ''room'',
           date_api = ''2024-03-15'', start_time = ''10:00'', end_time = ''09:00'',
           reserved_by = ''lee'', purpose_api = ''class'', id_api = ''reservation_1700000000000_k3j9x0q2m'',
           created_at = Some ''2023-11-14T22:13:20.000Z''\<rparr>])
   \<and> validateReservationTime ''10:00'' ''09:00'' = \<lparr>isValid = False, error = Some EndNotAfterStart\<rparr>"
proof -
  have "validateReservationTime ''10:00'' ''09:00'' = \<lparr>isValid = False, error = Some EndNotAfterStart\<rparr>"
    by code_simp
  then show ?thesis
    by (simp add: create_def getStoredReservations_def saveReservations_def
        ReservationInput.defs ReservationAPI.defs toString_js_numeral Let_def)
qed

text \<open>
  Claim C3, amended. \<open>create\<close> checks the candidate against the stored reservations
  only: when none of them conflicts with it under the store's three-clause comparison,
  \<open>create\<close> succeeds, returns the candidate with an id and a creation time, and stores
  it after the reservations already there (when local storage takes the write),
  whatever the candidate's start and end times are.
\<close>

theorem create_without_validation:
  assumes "\<forall>existing \<in> set (getStoredReservations stored). \<not> conflicts_with reservation existing"
  shows "\<exists>created.
           create env stored reservation =
             (Inr created,
              if writable env then Some (getStoredReservations stored @ [created]) else stored) \<and>
           ReservationInput.truncate created = reservation \<and>
           id_api created = ''reservation_'' @ toString_js (now_ms env) @ ''_'' @ random_suffix env \<and>
           created_at created = Some (now_iso env)"
proof -
  have "\<not> list_ex (conflicts_with reservation) (getStoredReservations stored)"
    using assms by (simp add: list_ex_iff)
  then show ?thesis
    by (simp add: create_success saveReservations_def truncate_extend
        ReservationInput.defs ReservationAPI.defs)
qed

theorem create_without_validation_witness:
  "(\<exists>created.
      create
        \<lparr>now_ms = 1700000000000, now_iso = ''2023-11-14T22:13:20.000Z'', random_suffix = ''k3j9x0q2m'',
         writable = True, tzOffset = -540\<rparr>
        (Some [\<lparr>type_api = space, resource_id = ''space-a'', resource_name = ''room'',
                date_api = ''2024-03-15'', start_time = ''09:00'', end_time = ''10:00'',
                reserved_by = ''kim'', purpose_api = ''talk'', id_api = ''reservation_1_aaaaaaaaa'',
                created_at = Some ''2023-11-01T00:00:00.000Z''\<rparr>])
        \<lparr>type_api = space, resource_id = ''space-a'', resource_name = ''room'',
         date_api = ''2024-03-15'', start_time = ''11:00'', end_time = ''11:10'',
         reserved_by = ''lee'', purpose_api = ''class''\<rparr>
      = (Inr created,
         Some [\<lparr>type_api = space, resource_id = ''space-a'', resource_name = ''room'',
                date_api = ''2024-03-15'', start_time = ''09:00'', end_time = ''10:00'',
                reserved_by = ''kim'', purpose_api = ''talk'', id_api = ''reservation_1_aaaaaaaaa'',
                created_at = Some ''2023-11-01T00:00:00.000Z''\<rparr>,
               created]) \<and>
      start_time created = ''11:00'' \<and> end_time created = ''11:10'')
   \<and> validateReservationTime ''11:00'' ''11:10'' = \<lparr>isValid = False, error = Some BelowMinimumDuration\<rparr>"
proof -
  let ?env = "\<lparr>now_ms = 1700000000000, now_iso = ''2023-11-14T22:13:20.000Z'', random_suffix = ''k3j9x0q2m'',
         writable = True, tzOffset = -540\<rparr>"
  let ?st = "Some [\<lparr>type_api = space, resource_id = ''space-a'', resource_name = ''room'',
                date_api = ''2024-03-15'', start_time = ''09:00'', end_time = ''10:00'',
                reserved_by = ''kim'', purpose_api = ''talk'', id_api = ''reservation_1_aaaaaaaaa'',
                created_at = Some ''2023-11-01T00:00:00.000Z''\<rparr>]"
  let ?c = "\<lparr>type_api = space, resource_id = ''space-a'', resource_name = ''room'',
         date_api = ''2024-03-15'', start_time = ''11:00'', end_time = ''11:10'',
         reserved_by = ''lee'', purpose_api = ''class''\<rparr>"
  have h: "\<forall>existing \<in> set (getStoredReservations ?st). \<not> conflicts_with ?c existing"
    by (simp add: getStoredReservations_def conflicts_with_def times_conflict_def)
  have v: "validateReservationTime ''11:00'' ''11:10'' = \<lparr>isValid = False, error = Some BelowMinimumDuration\<rparr>"
    by code_simp
  obtain created where c: "create ?env ?st ?c =
             (Inr created, if writable ?env then Some (getStoredReservations ?st @ [created]) else ?st)"
     "ReservationInput.truncate created = ?c"
    using create_without_validation [OF h, of ?env] by blast
  have "start_time created = start_time (ReservationInput.truncate created)"
       "end_time created = end_time (ReservationInput.truncate created)"
    by (simp_all add: ReservationInput.defs)
  then have "start_time created = ''11:00''" "end_time created = ''11:10''"
    using c(2) by simp_all
  then show ?thesis
    using c(1) v by (auto simp: getStoredReservations_def)
qed





section \<open>Month query\<close>

lemma fetchByMonth_not_west:
  assumes "tzOffset env \<le> 0"
  shows "fetchByMonth env stored year month =
           filter (\<lambda>r. \<exists>d. parse_iso_date (date_api r) = Some (year, month, d))
                  (getStoredReservations stored)"
proof -
  have *: "js_eq (getFullYear (new_Date (tzOffset env) (date_api r))) (Num year) \<and>
        js_eq (js_add (getMonth (new_Date (tzOffset env) (date_api r))) (Num 1)) (Num month)
        \<longleftrightarrow> (\<exists>d. parse_iso_date (date_api r) = Some (year, month, d))" for r
    using assms by (cases "parse_iso_date (date_api r)") (auto simp: new_Date_def)
  show ?thesis
    unfolding fetchByMonth_def Let_def * ..
qed

lemma parse_2024_03_01: "parse_iso_date ''2024-03-01'' = Some (2024, 3, 1)"
  by (simp add: parse_iso_date_def is_digit_def dec_value_def digit_val_def days_in_month_def)

text \<open>
  Claim C7 describes what the month query should do; the code does not do it west of
  Greenwich. \<open>fetchByMonth\<close> reads the stored date with \<open>new Date(text)\<close>, which takes the
  date-only text as midnight UTC, and then asks for the local year and month. With a
  time zone offset of 300 minutes (UTC-5) the reservation stored for 2024-03-01 is
  missing from the query for March 2024 and is returned by the query for February
  2024.
\<close>

theorem fetchByMonth_utc_shift:
  "fetchByMonth
     \<lparr>now_ms = 1700000000000, now_iso = ''2023-11-14T22:13:20.000Z'', random_suffix = ''k3j9x0q2m'',
      writable = True, tzOffset = 300\<rparr>
     (Some [\<lparr>type_api = space, resource_id = ''space-a'', resource_name = ''room'',
             date_api = ''2024-03-01'', start_time = ''09:00'', end_time = ''10:00'',
             reserved_by = ''kim'', purpose_api = ''talk'', id_api = ''reservation_1_aaaaaaaaa'',
             created_at = Some ''2023-11-01T00:00:00.000Z''\<rparr>])
     2024 3 = []
   \<and> fetchByMonth
     \<lparr>now_ms = 1700000000000, now_iso = ''2023-11-14T22:13:20.000Z'', random_suffix = ''k3j9x0q2m'',
      writable = True, tzOffset = 300\<rparr>
     (Some [\<lparr>type_api = space, resource_id = ''space-a'', resource_name = ''room'',
             date_api = ''2024-03-01'', start_time = ''09:00'', end_time = ''10:00'',
             reserved_by = ''kim'', purpose_api = ''talk'', id_api = ''reservation_1_aaaaaaaaa'',
             created_at = Some ''2023-11-01T00:00:00.000Z''\<rparr>])
     2024 2
   = [\<lparr>type_api = space, resource_id = ''space-a'', resource_name = ''room'',
             date_api = ''2024-03-01'', start_time = ''09:00'', end_time = ''10:00'',
             reserved_by = ''kim'', purpose_api = ''talk'', id_api = ''reservation_1_aaaaaaaaa'',
             created_at = Some ''2023-11-01T00:00:00.000Z''\<rparr>]"
  by (simp add: fetchByMonth_def getStoredReservations_def new_Date_def parse_2024_03_01
      previous_day_def days_in_month_def is_leap_year_def)

section \<open>Availability slot generator\<close>

lemma minute_loop_slots:
  "0 < d \<Longrightarrow> minute_loop dayRes d hour minute acc = Some (acc @ slots_in_hour dayRes d hour minute)"
proof (induction dayRes d hour minute arbitrary: acc rule: slots_in_hour.induct)
  case (1 dayRes d hour minute)
  show ?case
  proof (cases "minute < 60 \<and> (hour * 60 + minute + d) div 60 < 22")
    case True
    then have g: "0 < d \<and> minute < 60 \<and> (hour * 60 + minute + d) div 60 < 22"
      using "1.prems" by simp
    have ih: "minute_loop dayRes d hour (minute + d) acc' =
              Some (acc' @ slots_in_hour dayRes d hour (minute + d))" for acc'
      using "1.IH" [OF g "1.prems"] .
    show ?thesis
      using True
      by (subst minute_loop.simps, subst slots_in_hour.simps) (simp add: Let_def ih "1.prems")
  next
    case False
    then show ?thesis
      by (subst minute_loop.simps, subst slots_in_hour.simps) (auto simp: Let_def)
  qed
qed

lemma hour_loop_slots:
  "0 < d \<Longrightarrow> hour_loop dayRes d hour acc =
     Some (acc @ concat (map (\<lambda>h. slots_in_hour dayRes d h 0) [hour..21]))"
proof (induction dayRes d hour acc rule: hour_loop.induct)
  case (1 dayRes d hour acc)
  show ?case
  proof (cases "hour < 22")
    case True
    then have u: "[hour..21] = hour # [hour + 1..21]"
      by (simp add: upto_rec1)
    have m: "minute_loop dayRes d hour 0 acc = Some (acc @ slots_in_hour dayRes d hour 0)"
      using "1.prems" by (rule minute_loop_slots)
    show ?thesis
      using True "1.IH" [OF True m "1.prems"]
      by (subst hour_loop.simps) (simp add: m u)
  next
    case False
    then show ?thesis
      by (subst hour_loop.simps) simp
  qed
qed

lemma js_rem_nonneg: "0 \<le> a \<Longrightarrow> js_rem a 60 = a mod 60"
  by (cases "a = 0") (simp_all add: js_rem_def)

lemma exists_nat_shift:
  fixes Q :: "int \<Rightarrow> bool"
  shows "(\<exists>k::nat. Q (minute + int k * d)) \<longleftrightarrow> Q minute \<or> (\<exists>k::nat. Q (minute + d + int k * d))"
proof
  assume "\<exists>k::nat. Q (minute + int k * d)"
  then obtain k :: nat where k: "Q (minute + int k * d)" by blast
  show "Q minute \<or> (\<exists>k::nat. Q (minute + d + int k * d))"
  proof (cases k)
    case 0
    with k show ?thesis by simp
  next
    case (Suc j)
    have "minute + int k * d = minute + d + int j * d"
      by (simp add: Suc algebra_simps)
    then have "Q (minute + d + int j * d)" using k by (simp only:)
    then show ?thesis by blast
  qed
next
  assume "Q minute \<or> (\<exists>k::nat. Q (minute + d + int k * d))"
  then show "\<exists>k::nat. Q (minute + int k * d)"
  proof
    assume "Q minute"
    then have "Q (minute + int 0 * d)" by simp
    then show ?thesis by blast
  next
    assume "\<exists>k::nat. Q (minute + d + int k * d)"
    then obtain j :: nat where j: "Q (minute + d + int j * d)" by blast
    have "minute + int (Suc j) * d = minute + d + int j * d"
      by (simp add: algebra_simps)
    then have "Q (minute + int (Suc j) * d)" using j by (simp only:)
    then show ?thesis by blast
  qed
qed

lemma slots_in_hour_member:
  assumes "0 < d" "0 \<le> hour" "0 \<le> minute"
  shows "t \<in> set (slots_in_hour dayRes d hour minute) \<longleftrightarrow>
     (\<exists>k::nat. minute + int k * d < 60 \<and> (hour * 60 + (minute + int k * d) + d) div 60 < 22 \<and>
        \<not> list_ex (\<lambda>r. timeRangesOverlap (hhmm hour (minute + int k * d))
                         (hhmm ((hour * 60 + (minute + int k * d) + d) div 60)
                               ((hour * 60 + (minute + int k * d) + d) mod 60))
                         (startTime r) (endTime r)) dayRes \<and>
        t = hhmm hour (minute + int k * d))"
  using assms
proof (induction dayRes d hour minute rule: slots_in_hour.induct)
  case (1 dayRes d hour minute)
  define Q where "Q = (\<lambda>m. m < 60 \<and> (hour * 60 + m + d) div 60 < 22 \<and>
        \<not> list_ex (\<lambda>r. timeRangesOverlap (hhmm hour m)
                         (hhmm ((hour * 60 + m + d) div 60) ((hour * 60 + m + d) mod 60))
                         (startTime r) (endTime r)) dayRes \<and>
        t = hhmm hour m)"
  have goal: "?case \<longleftrightarrow> (t \<in> set (slots_in_hour dayRes d hour minute) \<longleftrightarrow> (\<exists>k::nat. Q (minute + int k * d)))"
    unfolding Q_def ..
  show ?case
  proof (cases "minute < 60 \<and> (hour * 60 + minute + d) div 60 < 22")
    case True
    then have g: "0 < d \<and> minute < 60 \<and> (hour * 60 + minute + d) div 60 < 22"
      using 1(2) by simp
    have "0 \<le> minute + d" using 1(2,4) by simp
    from "1.IH" [OF g 1(2) 1(3) this]
    have ih: "t \<in> set (slots_in_hour dayRes d hour (minute + d)) \<longleftrightarrow>
              (\<exists>k::nat. Q (minute + d + int k * d))"
      unfolding Q_def .
    have "0 \<le> hour * 60 + minute + d" using 1(2,3,4) by simp
    then have rem: "js_rem (hour * 60 + minute + d) 60 = (hour * 60 + minute + d) mod 60"
      by (rule js_rem_nonneg)
    have "slots_in_hour dayRes d hour minute =
          (if list_ex (\<lambda>r. timeRangesOverlap (hhmm hour minute)
                         (hhmm ((hour * 60 + minute + d) div 60) ((hour * 60 + minute + d) mod 60))
                         (startTime r) (endTime r)) dayRes
           then [] else [hhmm hour minute]) @ slots_in_hour dayRes d hour (minute + d)"
      by (subst slots_in_hour.simps) (simp only: g rem if_True simp_thms)
    then have "t \<in> set (slots_in_hour dayRes d hour minute) \<longleftrightarrow>
          Q minute \<or> t \<in> set (slots_in_hour dayRes d hour (minute + d))"
      using g unfolding Q_def by auto
    then show ?thesis
      unfolding goal ih exists_nat_shift [of Q minute d] .
  next
    case False
    have none: "\<not> Q (minute + int k * d)" for k :: nat
    proof -
      have "0 \<le> int k * d" using 1(2) by simp
      then have ge: "minute \<le> minute + int k * d" by simp
      show ?thesis
      proof (cases "minute < 60")
        case True
        with False have "22 \<le> (hour * 60 + minute + d) div 60" by simp
        also have "\<dots> \<le> (hour * 60 + (minute + int k * d) + d) div 60"
          using ge by (intro zdiv_mono1) simp_all
        finally show ?thesis by (simp add: Q_def)
      next
        case False
        with ge show ?thesis by (simp add: Q_def)
      qed
    qed
    have "slots_in_hour dayRes d hour minute = []"
      using False by (subst slots_in_hour.simps) auto
    then show ?thesis
      unfolding goal using none by simp
  qed
qed

lemma getAvailableTimeSlots_eq:
  assumes "0 < d"
  shows "getAvailableTimeSlots resource day rs d =
     Some (concat (map (\<lambda>h. slots_in_hour
       (filter (\<lambda>r. resourceId r = resource \<and> toDateString (date r) = toDateString day) rs) d h 0)
       [6..21]))"
  by (simp only: getAvailableTimeSlots_def Let_def hour_loop_slots [OF assms] append_Nil)

lemma slot_member:
  assumes "0 < d"
  shows "t \<in> set (concat (map (\<lambda>h. slots_in_hour
       (filter (\<lambda>r. resourceId r = resource \<and> toDateString (date r) = toDateString day) rs) d h 0)
       [6..21]))
     \<longleftrightarrow> (\<exists>h (k::nat). 6 \<le> h \<and> h \<le> 21 \<and> int k * d < 60 \<and>
            (h * 60 + int k * d + d) div 60 < 22 \<and>
            slot_is_free resource day rs d h (int k * d) \<and> t = hhmm h (int k * d))"
proof -
  let ?day = "filter (\<lambda>r. resourceId r = resource \<and> toDateString (date r) = toDateString day) rs"
  have free: "\<not> list_ex (\<lambda>r. timeRangesOverlap (hhmm h m)
                         (hhmm ((h * 60 + m + d) div 60) ((h * 60 + m + d) mod 60))
                         (startTime r) (endTime r)) ?day \<longleftrightarrow> slot_is_free resource day rs d h m" for h m
    by (auto simp: slot_is_free_def list_ex_iff)
  have one: "t \<in> set (slots_in_hour ?day d h 0) \<longleftrightarrow>
      (\<exists>k::nat. int k * d < 60 \<and> (h * 60 + int k * d + d) div 60 < 22 \<and>
            slot_is_free resource day rs d h (int k * d) \<and> t = hhmm h (int k * d))"
    if "6 \<le> h" for h
  proof -
    have "0 \<le> h" using that by simp
    from slots_in_hour_member [OF assms this, of 0 t ?day]
    show ?thesis
      by (simp add: free)
  qed
  have "t \<in> set (concat (map (\<lambda>h. slots_in_hour ?day d h 0) [6..21])) \<longleftrightarrow>
        (\<exists>h. 6 \<le> h \<and> h \<le> 21 \<and> t \<in> set (slots_in_hour ?day d h 0))"
    unfolding set_concat set_map set_upto by auto
  also have "\<dots> \<longleftrightarrow> (\<exists>h (k::nat). 6 \<le> h \<and> h \<le> 21 \<and> int k * d < 60 \<and>
            (h * 60 + int k * d + d) div 60 < 22 \<and>
            slot_is_free resource day rs d h (int k * d) \<and> t = hhmm h (int k * d))"
    using one by blast
  finally show ?thesis .
qed

text \<open>
  Claim C6, as stated, fails. The minute grid restarts at every full hour, so with a
  \<open>slotDuration\<close> of 45 the result holds 07:00 and not 07:30, which is on the grid that
  steps by 45 minutes from 06:00. And a slot that ends at 22:00 sharp is dropped: with
  a \<open>slotDuration\<close> of 60 and no reservation the last start time is 20:00, not 21:00.
\<close>

theorem getAvailableTimeSlots_counterexample:
  "getAvailableTimeSlots ''vehicle-1'' (LocalDate 2024 2 15) [] 45 =
     Some [''06:00'', ''06:45'', ''07:00'', ''07:45'', ''08:00'', ''08:45'', ''09:00'', ''09:45'',
           ''10:00'', ''10:45'', ''11:00'', ''11:45'', ''12:00'', ''12:45'', ''13:00'', ''13:45'',
           ''14:00'', ''14:45'', ''15:00'', ''15:45'', ''16:00'', ''16:45'', ''17:00'', ''17:45'',
           ''18:00'', ''18:45'', ''19:00'', ''19:45'', ''20:00'', ''20:45'', ''21:00'']
   \<and> getAvailableTimeSlots ''vehicle-1'' (LocalDate 2024 2 15) [] 60 =
     Some [''06:00'', ''07:00'', ''08:00'', ''09:00'', ''10:00'', ''11:00'', ''12:00'', ''13:00'',
           ''14:00'', ''15:00'', ''16:00'', ''17:00'', ''18:00'', ''19:00'', ''20:00'']"
  by code_simp

text \<open>
  Claim C6, amended. For every positive \<open>slotDuration\<close> \<open>getAvailableTimeSlots\<close> returns.
  Every time it returns is a candidate start on the grid of the code, an hour from 06
  to 21 and a minute below 60 that is a multiple of \<open>slotDuration\<close> (the minute grid
  restarts at every full hour), whose end, the start plus \<open>slotDuration\<close>, does not
  exceed 22:00, and which overlaps no reservation for the same resource on the same
  day under \<open>timeRangesOverlap\<close>. Every such candidate whose end is before 22:00 and
  which overlaps no such reservation is returned. What happens to a candidate that
  ends at 22:00 sharp is not part of this statement.
\<close>

theorem getAvailableTimeSlots_grid:
  assumes "0 < slotDuration"
  shows "\<exists>slots. getAvailableTimeSlots resource day existingReservations slotDuration = Some slots \<and>
           (\<forall>t \<in> set slots.
              \<exists>hour minute. 6 \<le> hour \<and> hour < 22 \<and> 0 \<le> minute \<and> minute < 60 \<and>
                slotDuration dvd minute \<and> t = hhmm hour minute \<and>
                hour * 60 + minute + slotDuration \<le> 22 * 60 \<and>
                slot_is_free resource day existingReservations slotDuration hour minute) \<and>
           (\<forall>hour minute. 6 \<le> hour \<and> hour < 22 \<and> 0 \<le> minute \<and> minute < 60 \<and>
                slotDuration dvd minute \<and>
                hour * 60 + minute + slotDuration < 22 * 60 \<and>
                slot_is_free resource day existingReservations slotDuration hour minute
              \<longrightarrow> hhmm hour minute \<in> set slots)"
proof -
  let ?slots = "concat (map (\<lambda>h. slots_in_hour
       (filter (\<lambda>r. resourceId r = resource \<and> toDateString (date r) = toDateString day)
          existingReservations) slotDuration h 0) [6..21])"
  note mem = slot_member [OF assms, of _ resource day existingReservations]
  have a: "\<exists>hour minute. 6 \<le> hour \<and> hour < 22 \<and> 0 \<le> minute \<and> minute < 60 \<and>
                slotDuration dvd minute \<and> t = hhmm hour minute \<and>
                hour * 60 + minute + slotDuration \<le> 22 * 60 \<and>
                slot_is_free resource day existingReservations slotDuration hour minute"
    if "t \<in> set ?slots" for t
  proof -
    from that obtain h and k :: nat where hk: "6 \<le> h" "h \<le> 21" "int k * slotDuration < 60"
      "(h * 60 + int k * slotDuration + slotDuration) div 60 < 22"
      "slot_is_free resource day existingReservations slotDuration h (int k * slotDuration)"
      "t = hhmm h (int k * slotDuration)"
      unfolding mem by blast
    have "0 \<le> int k * slotDuration" using assms by simp
    moreover have "h * 60 + int k * slotDuration + slotDuration < 22 * 60"
      using hk(4) by linarith
    ultimately show ?thesis
      using hk by (intro exI [of _ h] exI [of _ "int k * slotDuration"]) simp
  qed
  have b: "hhmm hour minute \<in> set ?slots"
    if "6 \<le> hour" "hour < 22" "0 \<le> minute" "minute < 60" "slotDuration dvd minute"
      "hour * 60 + minute + slotDuration < 22 * 60"
      "slot_is_free resource day existingReservations slotDuration hour minute"
    for hour minute
  proof -
    from that(5) obtain q where q: "minute = slotDuration * q" by (auto simp: dvd_def)
    have "0 \<le> q"
      using that(3) assms q by (simp add: zero_le_mult_iff)
    then have m: "minute = int (nat q) * slotDuration"
      using q by (simp add: mult.commute)
    have "(hour * 60 + minute + slotDuration) div 60 < 22"
      using that(6) by linarith
    then show ?thesis
      unfolding mem using that m by (intro exI [of _ hour] exI [of _ "nat q"]) simp
  qed
  have "getAvailableTimeSlots resource day existingReservations slotDuration = Some ?slots"
    using assms by (rule getAvailableTimeSlots_eq)
  with a b show ?thesis by blast
qed

theorem getAvailableTimeSlots_grid_witness:
  "\<exists>slots.
     getAvailableTimeSlots ''vehicle-1'' (LocalDate 2024 2 15)
       [\<lparr>resourceId = ''vehicle-1'', date = LocalDate 2024 2 15, startTime = ''09:00'', endTime = ''10:30'',
         id_r = ''r1'', type_r = vehicle, resourceName = ''latte'', reservedBy = ''kim'', purpose = ''trip''\<rparr>]
       60 = Some slots \<and>
     ''08:00'' \<in> set slots \<and> ''09:00'' \<notin> set slots"
proof -
  let ?rs = "[\<lparr>resourceId = ''vehicle-1'', date = LocalDate 2024 2 15, startTime = ''09:00'', endTime = ''10:30'',
         id_r = ''r1'', type_r = vehicle, resourceName = ''latte'', reservedBy = ''kim'', purpose = ''trip''\<rparr>]"
  have pos: "(0::int) < 60" by simp
  from getAvailableTimeSlots_grid [OF pos, of "''vehicle-1''" "LocalDate 2024 2 15" ?rs]
  obtain slots where s: "getAvailableTimeSlots ''vehicle-1'' (LocalDate 2024 2 15) ?rs 60 = Some slots"
    and a: "\<forall>t \<in> set slots.
              \<exists>hour minute. 6 \<le> hour \<and> hour < 22 \<and> 0 \<le> minute \<and> minute < 60 \<and>
                60 dvd minute \<and> t = hhmm hour minute \<and>
                hour * 60 + minute + 60 \<le> 22 * 60 \<and>
                slot_is_free ''vehicle-1'' (LocalDate 2024 2 15) ?rs 60 hour minute"
    and b: "\<forall>hour minute. 6 \<le> hour \<and> hour < 22 \<and> 0 \<le> minute \<and> minute < 60 \<and>
                60 dvd minute \<and>
                hour * 60 + minute + 60 < 22 * 60 \<and>
                slot_is_free ''vehicle-1'' (LocalDate 2024 2 15) ?rs 60 hour minute
              \<longrightarrow> hhmm hour minute \<in> set slots"
    by blast
  have t8: "hhmm 8 0 = ''08:00''" and t9: "hhmm 9 0 = ''09:00''"
    by code_simp+
  have free8: "slot_is_free ''vehicle-1'' (LocalDate 2024 2 15) ?rs 60 8 0"
    by code_simp
  have busy9: "\<not> slot_is_free ''vehicle-1'' (LocalDate 2024 2 15) ?rs 60 9 0"
    by code_simp
  have "hhmm 8 0 \<in> set slots"
    using b [rule_format, of 8 0] free8 by simp
  moreover have "''09:00'' \<notin> set slots"
  proof
    assume "''09:00'' \<in> set slots"
    with a obtain hour minute where hm: "6 \<le> hour" "hour < 22" "0 \<le> minute" "minute < 60"
      "''09:00'' = hhmm hour minute"
      "slot_is_free ''vehicle-1'' (LocalDate 2024 2 15) ?rs 60 hour minute"
      by blast
    have "hhmm (int (nat hour)) (int (nat minute)) = hhmm (int 9) (int 0)"
      using hm t9 by simp
    then have "nat hour = 9 \<and> nat minute = 0"
      using hm by (intro hhmm_inj) simp_all
    then have "hour = 9" "minute = 0" using hm(1,3) by linarith+
    with hm(6) busy9 show False by simp
  qed
  ultimately show ?thesis
    using s t8 by simp
qed

end
